theory Spec2Isabelle
  imports Complex_Main "HOL-Library.AList"
begin

section \<open>The pattern engine of KRACKEL (class PatternAIEngine)\<close>

text \<open>
  A shallow embedding of the class \<^verbatim>\<open>PatternAIEngine\<close>: its spam filter, its quality
  score, its interval classifier, the registry of detected patterns with its scoring and
  clean-up, the rhythm tracker, the style model, the record of a keystroke and the two
  persistence methods.

  Modelling decisions, each one local to the definition that takes it:
  \<^item> A JavaScript string is a \<^typ>\<open>string\<close>, a character a \<^typ>\<open>char\<close>;
    \<^verbatim>\<open>toLowerCase\<close> is modelled on the ASCII letters.
  \<^item> A JavaScript number that is always finite is a \<^typ>\<open>rat\<close> (or \<^typ>\<open>int\<close>, \<^typ>\<open>nat\<close>
    for a timestamp or a count); the rounding of binary64 arithmetic is not modelled.
    Where the source can produce \<^verbatim>\<open>NaN\<close> or an infinity (a division by a length or by
    a mean interval that may be zero) the number is a \<open>jsnum\<close>.
  \<^item> \<^verbatim>\<open>Date.now()\<close> reads a clock: the sequence of its future readings, threaded
    through every function that reads it, one reading per call. Nothing is assumed
    about the sequence.
  \<^item> A \<^verbatim>\<open>Map\<close> is an association list in insertion order (\<^const>\<open>AList.update\<close>
    replaces in place or appends, as \<^verbatim>\<open>Map.prototype.set\<close> does).
\<close>

subsection \<open>JavaScript numbers\<close>

datatype jsnum = Fin rat | PInf | NInf | NaN

text \<open>Zero is not signed in this model: a zero divisor counts as \<^verbatim>\<open>+0\<close>.\<close>

fun js_neg :: "jsnum \<Rightarrow> jsnum" where
  "js_neg (Fin a) = Fin (- a)"
| "js_neg PInf = NInf"
| "js_neg NInf = PInf"
| "js_neg NaN = NaN"

fun js_add :: "jsnum \<Rightarrow> jsnum \<Rightarrow> jsnum" where
  "js_add NaN _ = NaN"
| "js_add _ NaN = NaN"
| "js_add (Fin a) (Fin b) = Fin (a + b)"
| "js_add PInf NInf = NaN"
| "js_add NInf PInf = NaN"
| "js_add PInf _ = PInf"
| "js_add NInf _ = NInf"
| "js_add (Fin a) PInf = PInf"
| "js_add (Fin a) NInf = NInf"

definition js_sub :: "jsnum \<Rightarrow> jsnum \<Rightarrow> jsnum" where
  "js_sub a b = js_add a (js_neg b)"

fun js_mul :: "jsnum \<Rightarrow> jsnum \<Rightarrow> jsnum" where
  "js_mul NaN _ = NaN"
| "js_mul _ NaN = NaN"
| "js_mul (Fin a) (Fin b) = Fin (a * b)"
| "js_mul PInf (Fin b) = (if b = 0 then NaN else if 0 < b then PInf else NInf)"
| "js_mul NInf (Fin b) = (if b = 0 then NaN else if 0 < b then NInf else PInf)"
| "js_mul (Fin a) PInf = (if a = 0 then NaN else if 0 < a then PInf else NInf)"
| "js_mul (Fin a) NInf = (if a = 0 then NaN else if 0 < a then NInf else PInf)"
| "js_mul PInf PInf = PInf"
| "js_mul NInf NInf = PInf"
| "js_mul PInf NInf = NInf"
| "js_mul NInf PInf = NInf"

fun js_div :: "jsnum \<Rightarrow> jsnum \<Rightarrow> jsnum" where
  "js_div NaN _ = NaN"
| "js_div _ NaN = NaN"
| "js_div (Fin a) (Fin b) =
     (if b \<noteq> 0 then Fin (a / b)
      else if a = 0 then NaN else if 0 < a then PInf else NInf)"
| "js_div (Fin a) PInf = Fin 0"
| "js_div (Fin a) NInf = Fin 0"
| "js_div PInf (Fin b) = (if 0 \<le> b then PInf else NInf)"
| "js_div NInf (Fin b) = (if 0 \<le> b then NInf else PInf)"
| "js_div PInf _ = NaN"
| "js_div NInf _ = NaN"

fun js_abs :: "jsnum \<Rightarrow> jsnum" where
  "js_abs (Fin a) = Fin \<bar>a\<bar>"
| "js_abs PInf = PInf"
| "js_abs NInf = PInf"
| "js_abs NaN = NaN"

text \<open>\<^verbatim>\<open>a < b\<close>; a comparison with \<^verbatim>\<open>NaN\<close> is false.\<close>

fun js_lt :: "jsnum \<Rightarrow> jsnum \<Rightarrow> bool" where
  "js_lt (Fin a) (Fin b) = (a < b)"
| "js_lt (Fin a) PInf = True"
| "js_lt NInf (Fin b) = True"
| "js_lt NInf PInf = True"
| "js_lt _ _ = False"

definition js_gt :: "jsnum \<Rightarrow> jsnum \<Rightarrow> bool" where
  "js_gt a b = js_lt b a"

text \<open>\<^verbatim>\<open>a <= b\<close>.\<close>

fun js_le :: "jsnum \<Rightarrow> jsnum \<Rightarrow> bool" where
  "js_le (Fin a) (Fin b) = (a \<le> b)"
| "js_le (Fin a) PInf = True"
| "js_le NInf (Fin b) = True"
| "js_le NInf PInf = True"
| "js_le PInf PInf = True"
| "js_le NInf NInf = True"
| "js_le _ _ = False"

text \<open>\<^verbatim>\<open>Math.max\<close> and \<^verbatim>\<open>Math.min\<close> of two numbers: \<^verbatim>\<open>NaN\<close> if either is.\<close>

fun js_max :: "jsnum \<Rightarrow> jsnum \<Rightarrow> jsnum" where
  "js_max NaN _ = NaN"
| "js_max _ NaN = NaN"
| "js_max a b = (if js_lt a b then b else a)"

fun js_min :: "jsnum \<Rightarrow> jsnum \<Rightarrow> jsnum" where
  "js_min NaN _ = NaN"
| "js_min _ NaN = NaN"
| "js_min a b = (if js_lt b a then b else a)"

subsection \<open>JavaScript strings\<close>

text \<open>
  \<^verbatim>\<open>s.substring(a, b)\<close> for indices that are natural numbers: both are clamped to the
  length and swapped when out of order.
\<close>

definition substring :: "string \<Rightarrow> nat \<Rightarrow> nat \<Rightarrow> string" where
  "substring s a b =
     (let a' = min a (length s); b' = min b (length s);
          lo = min a' b'; hi = max a' b'
      in take (hi - lo) (drop lo s))"

text \<open>\<^verbatim>\<open>s.repeat(n)\<close>.\<close>

definition repeat :: "string \<Rightarrow> nat \<Rightarrow> string" where
  "repeat s n = concat (replicate n s)"

text \<open>\<^verbatim>\<open>new Set(xs).size\<close>: the number of distinct elements.\<close>

definition setSize :: "'a list \<Rightarrow> nat" where
  "setSize xs = length (remdups xs)"

text \<open>
  \<^verbatim>\<open>toLowerCase\<close> of a string of one character, on the ASCII letters: an upper-case
  letter (code 65 to 90) moves to the lower-case one, 32 above.
\<close>

definition isUpperChar :: "char \<Rightarrow> bool" where
  "isUpperChar c = (65 \<le> (of_char c :: nat) \<and> (of_char c :: nat) \<le> 90)"

definition toLowerChar :: "char \<Rightarrow> char" where
  "toLowerChar c = (if isUpperChar c then char_of ((of_char c :: nat) + 32) else c)"

subsection \<open>The spam filter (isSpamPattern)\<close>

text \<open>
  The largest entry of \<^verbatim>\<open>charCounts\<close>. \<^verbatim>\<open>Math.max()\<close> of no argument is
  \<^verbatim>\<open>-Infinity\<close>, so the empty pattern never passes the 60 per cent test; the model
  writes that case out.
\<close>

definition maxCharFreq :: "string \<Rightarrow> nat" where
  "maxCharFreq pattern = fold max (map (count_list pattern) pattern) 0"

definition isSpamPattern :: "string \<Rightarrow> bool" where
  "isSpamPattern pattern =
     (if length pattern > 2 \<and> list_all (\<lambda>c. c = hd pattern) pattern then True
      else if length pattern > 4
              \<and> (length pattern mod 2 = 0
                   \<and> pattern = repeat (substring pattern 0 2) (length pattern div 2))
              \<and> setSize pattern \<le> 2 then True
      else if pattern \<noteq> []
              \<and> (of_nat (maxCharFreq pattern) :: rat) / of_nat (length pattern) > 0.6 then True
      else False)"

subsection \<open>The quality score (calculatePatternQuality)\<close>

definition keyboardRows :: "(string \<times> nat) list" where
  "keyboardRows = [(''qwertyuiop'', 0), (''asdfghjkl'', 1), (''zxcvbnm'', 2)]"

text \<open>The inner loop of hasMusicalCoherence: the index of the first row holding the character.\<close>

definition rowOfChar :: "char \<Rightarrow> nat option" where
  "rowOfChar c = map_option snd (find (\<lambda>(row, rowIndex). c \<in> set row) keyboardRows)"

definition rowPositions :: "string \<Rightarrow> nat list" where
  "rowPositions pattern = List.map_filter rowOfChar pattern"

definition hasMusicalCoherence :: "string \<Rightarrow> bool" where
  "hasMusicalCoherence pattern = (setSize (rowPositions pattern) \<le> 2)"

text \<open>
  The test of one candidate sub-length, and the loop over \<^verbatim>\<open>subLen = 2, 3, ...\<close> while
  \<^verbatim>\<open>subLen <= pattern.length / 2\<close>, which returns at the first sub-length that passes.
\<close>

definition repeatsUnit :: "string \<Rightarrow> nat \<Rightarrow> bool" where
  "repeatsUnit pattern subLen =
     (pattern = repeat (substring pattern 0 subLen) (length pattern div subLen)
                @ substring pattern 0 (length pattern mod subLen))"

definition hasExcessiveInternalRepetition :: "string \<Rightarrow> bool" where
  "hasExcessiveInternalRepetition pattern =
     (if length pattern \<le> 4 then False
      else list_ex (repeatsUnit pattern) [2 ..< length pattern div 2 + 1])"

text \<open>The quality before the internal-repetition penalty: diversity, length, coherence.\<close>

definition qualityBeforeRepetition :: "string \<Rightarrow> jsnum" where
  "qualityBeforeRepetition pattern =
     (let quality = Fin 1;
          uniqueChars = setSize pattern;
          diversityRatio = js_div (Fin (of_nat uniqueChars)) (Fin (of_nat (length pattern)));
          quality = js_mul quality (js_add (Fin 0.5) diversityRatio);
          quality = (if 3 \<le> length pattern \<and> length pattern \<le> 8 then js_mul quality (Fin 1.2)
                     else if length pattern > 12 then js_mul quality (Fin 0.7)
                     else quality)
      in if hasMusicalCoherence pattern then js_mul quality (Fin 1.3) else quality)"

definition qualityUnclamped :: "string \<Rightarrow> jsnum" where
  "qualityUnclamped pattern =
     (let quality = qualityBeforeRepetition pattern
      in if hasExcessiveInternalRepetition pattern then js_mul quality (Fin 0.6) else quality)"

definition calculatePatternQuality :: "string \<Rightarrow> jsnum" where
  "calculatePatternQuality pattern = js_max (Fin 0.1) (js_min (Fin 2.0) (qualityUnclamped pattern))"

subsection \<open>The interval classifier (classifyInterval)\<close>

datatype noteValue = Whole | Half | Quarter | Eighth | Sixteenth | Thirtysecond | Rest

definition quarterNoteMs :: "jsnum \<Rightarrow> jsnum" where
  "quarterNoteMs currentTempo = js_mul (js_div (Fin 60) currentTempo) (Fin 1000)"

text \<open>The object \<^verbatim>\<open>ratios\<close>, in the order \<^verbatim>\<open>Object.entries\<close> lists it.\<close>

definition ratios :: "jsnum \<Rightarrow> jsnum \<Rightarrow> (noteValue \<times> jsnum) list" where
  "ratios intervalMs q =
     [(Whole, js_div intervalMs (js_mul q (Fin 4))),
      (Half, js_div intervalMs (js_mul q (Fin 2))),
      (Quarter, js_div intervalMs q),
      (Eighth, js_div intervalMs (js_div q (Fin 2))),
      (Sixteenth, js_div intervalMs (js_div q (Fin 4))),
      (Thirtysecond, js_div intervalMs (js_div q (Fin 8)))]"

definition closestStep :: "noteValue \<times> jsnum \<Rightarrow> noteValue \<times> jsnum \<Rightarrow> noteValue \<times> jsnum" where
  "closestStep entry closest =
     (let distance = js_abs (js_sub (snd entry) (Fin 1))
      in if js_lt distance (snd closest) then (fst entry, distance) else closest)"

text \<open>The note the loop ends with, before the test for a rest.\<close>

definition closestNote :: "jsnum \<Rightarrow> int \<Rightarrow> noteValue" where
  "closestNote currentTempo intervalMs =
     (let q = quarterNoteMs currentTempo;
          rs = ratios (Fin (of_int intervalMs)) q;
          start = (Quarter, js_abs (js_sub (js_div (Fin (of_int intervalMs)) q) (Fin 1)))
      in fst (fold closestStep rs start))"

definition classifyInterval :: "jsnum \<Rightarrow> int \<Rightarrow> noteValue" where
  "classifyInterval currentTempo intervalMs =
     (if js_gt (Fin (of_int intervalMs)) (js_mul (quarterNoteMs currentTempo) (Fin 2)) then Rest
      else closestNote currentTempo intervalMs)"

subsection \<open>The state of the engine\<close>

text \<open>
  A keystroke record. The only caller (\<^verbatim>\<open>handleKeyPress\<close> of the game) passes a key of
  length one, so the character is one \<^typ>\<open>char\<close> and the joined character sequence has
  one position per keystroke. The fields \<^verbatim>\<open>musicalNote\<close> and \<^verbatim>\<open>beatPosition\<close> are
  stored and never read by the engine; they are left out.
\<close>

record keystroke =
  char :: char
  timestamp :: int
  timeSinceLastKey :: int

record rhythmInfo =
  rhythm :: "noteValue list"
  confidence :: rat

text \<open>An entry of \<^verbatim>\<open>detectedPatterns\<close>; \<open>length_p\<close> is its field \<^verbatim>\<open>length\<close>.\<close>

record patternEntry =
  pattern :: string
  length_p :: nat
  frequency :: nat
  score :: rat
  lastSeen :: int
  rhythmInfo :: "rhythmInfo option"
  qualityScore :: jsnum
  firstSeen :: int

datatype category = Simple | Complex | Repetitive | Alternating | Varied

record learnedPattern =
  learned_pattern :: string
  learnedAt :: int
  strength :: rat
  category :: category

text \<open>An entry of \<^verbatim>\<open>rhythmPatterns\<close>.\<close>

record rhythmEntry =
  rhythm_pattern :: "noteValue list"
  rhythm_frequency :: nat
  averageInterval :: rat
  rhythm_lastSeen :: int

datatype complexity = SimpleC | MediumC | ComplexC

text \<open>
  The style model. \<^verbatim>\<open>preferredPatterns\<close> holds objects of the registry themselves;
  updateUserStyle rebuilds the list at the end of every pass, after the last write to
  an entry, so the list of their values is what a reader of the model finds there.
\<close>

record userStyle =
  preferredPatterns :: "patternEntry list"
  averageTempo :: jsnum
  rhythmPreference :: noteValue
  patternComplexity :: complexity
  musicalScale :: string

text \<open>
  The key of \<^verbatim>\<open>detectedPatterns\<close> is the template string
  \<^verbatim>\<open>`${pattern}_${patternLength}`\<close>: the decimal digits after the last underscore give
  the length and what stands before it the pattern, so the string and the pair
  (pattern, length) determine each other; the model keeps the pair. The key of
  \<^verbatim>\<open>rhythmPatterns\<close> is the list of note names joined by \<^verbatim>\<open>-\<close>; no name holds a
  \<^verbatim>\<open>-\<close> and every list that is joined is non-empty, so the model keeps the list.

  \<^verbatim>\<open>hierarchicalPatterns\<close> is written by \<^verbatim>\<open>findNestedPatterns\<close> and read by no method
  modelled here; it is left out, with \<^verbatim>\<open>currentBeat\<close>, \<^verbatim>\<open>beatHistory\<close>,
  \<^verbatim>\<open>noteValues\<close>, \<^verbatim>\<open>isInitialized\<close> and \<^verbatim>\<open>musicalEngine\<close>.
\<close>

type_synonym patternKey = "string \<times> nat"

record engine =
  keystrokeHistory :: "keystroke list"
  detectedPatterns :: "(patternKey \<times> patternEntry) list"
  learnedPatterns :: "learnedPattern list"
  tempoHistory :: "jsnum list"
  rhythmPatterns :: "(noteValue list \<times> rhythmEntry) list"
  userStyle :: userStyle

definition maxPatternLength :: nat where "maxPatternLength = 64"
definition minPatternLength :: nat where "minPatternLength = 2"
definition patternScoreThreshold :: rat where "patternScoreThreshold = 1.5"

text \<open>The state the constructor builds.\<close>

definition constructor :: engine where
  "constructor =
     \<lparr>keystrokeHistory = [], detectedPatterns = [], learnedPatterns = [],
      tempoHistory = [], rhythmPatterns = [],
      userStyle = \<lparr>preferredPatterns = [], averageTempo = Fin 120,
                   rhythmPreference = Quarter, patternComplexity = MediumC,
                   musicalScale = ''pentatonic''\<rparr>\<rparr>"

type_synonym clock = "nat \<Rightarrow> int"

text \<open>\<^verbatim>\<open>Date.now()\<close>: the next reading of the clock, and the clock after it.\<close>

definition Date_now :: "clock \<Rightarrow> int \<times> clock" where
  "Date_now clock = (clock 0, \<lambda>n. clock (Suc n))"

subsection \<open>Scoring a detected pattern\<close>

definition calculatePatternScore :: "clock \<Rightarrow> patternEntry \<Rightarrow> nat \<Rightarrow> rat \<times> clock" where
  "calculatePatternScore clock p repetitions =
     (let baseScore = of_nat (repetitions * length_p p);
          complexityBonus = min (of_nat (length_p p) / 4) 5;
          uniqueCharsBonus = of_nat (setSize (pattern p)) * 0.5;
          now = fst (Date_now clock);
          recencyBonus = max 0 (5 - of_int (now - lastSeen p) / 1000)
      in (baseScore + complexityBonus + uniqueCharsBonus + recencyBonus, snd (Date_now clock)))"

text \<open>
  \<^verbatim>\<open>Date.now() - (patternData.firstSeen || Date.now())\<close>: the left operand is read first,
  and the clock is read a second time only when \<^verbatim>\<open>firstSeen\<close> is 0.
\<close>

definition calculateFreshnessPenalty :: "clock \<Rightarrow> patternEntry \<Rightarrow> rat \<times> clock" where
  "calculateFreshnessPenalty clock patternData =
     (let now = fst (Date_now clock);
          clock1 = snd (Date_now clock);
          first = (if firstSeen patternData \<noteq> 0 then firstSeen patternData
                   else fst (Date_now clock1));
          clock2 = (if firstSeen patternData \<noteq> 0 then clock1 else snd (Date_now clock1));
          timeSinceFirstSeen = now - first;
          usageRate = (of_nat (frequency patternData) :: rat)
                        / max 1 (of_int timeSinceFirstSeen / 1000)
      in (if usageRate > 2 then 0.1
          else if usageRate > 1 then 0.3
          else if usageRate > 0.5 then 0.7
          else 1.0, clock2))"

subsection \<open>The rhythm of one pattern (analyzePatternRhythm)\<close>

text \<open>
  The while loop of findPatternOccurrences visits, in ascending order, every index
  \<^verbatim>\<open>foundIndex <= charSequence.length - pattern.length\<close> at which the pattern stands, and
  pushes the slice of the keystrokes there.
\<close>

definition findPatternOccurrences :: "string \<Rightarrow> keystroke list \<Rightarrow> keystroke list list" where
  "findPatternOccurrences pat keystrokeData =
     (let charSequence = map char keystrokeData
      in map (\<lambda>foundIndex. take (length pat) (drop foundIndex keystrokeData))
           (filter (\<lambda>i. take (length pat) (drop i charSequence) = pat)
              [0 ..< length charSequence + 1 - length pat]))"

text \<open>The differences \<^verbatim>\<open>ks[i].timestamp - ks[i-1].timestamp\<close> for \<^verbatim>\<open>i = 1, 2, ...\<close>.\<close>

fun intervalsOf :: "keystroke list \<Rightarrow> int list" where
  "intervalsOf (a # b # ks) = (timestamp b - timestamp a) # intervalsOf (b # ks)"
| "intervalsOf _ = []"

text \<open>\<^verbatim>\<open>rhythmCounts.set(key, (rhythmCounts.get(key) || 0) + 1)\<close>.\<close>

definition countRhythm :: "'k \<Rightarrow> ('k \<times> nat) list \<Rightarrow> ('k \<times> nat) list" where
  "countRhythm k counts =
     AList.update k ((case map_of counts k of None \<Rightarrow> 0 | Some n \<Rightarrow> n) + 1) counts"

text \<open>
  \<^verbatim>\<open>entries.sort((a, b) => b[1] - a[1])[0]\<close>: the sort is stable, so the first entry is
  the first one in insertion order among those with the largest count.
\<close>

definition mostCommon :: "('k \<times> nat) list \<Rightarrow> ('k \<times> nat) option" where
  "mostCommon counts =
     (case sort_key (\<lambda>entry. - int (snd entry)) counts of [] \<Rightarrow> None | entry # _ \<Rightarrow> Some entry)"

definition analyzePatternRhythm :: "jsnum \<Rightarrow> string \<Rightarrow> keystroke list \<Rightarrow> rhythmInfo option" where
  "analyzePatternRhythm currentTempo pat keystrokeData =
     (let patternOccurrences = findPatternOccurrences pat keystrokeData
      in if patternOccurrences = [] then None
         else
           (let rhythms = map (\<lambda>occurrence. map (classifyInterval currentTempo)
                                  (intervalsOf occurrence)) patternOccurrences;
                rhythmCounts = fold countRhythm rhythms []
            in case mostCommon rhythmCounts of
                 None \<Rightarrow> Some \<lparr>rhythm = [], confidence = 0\<rparr>
               | Some (k, n) \<Rightarrow>
                   Some \<lparr>rhythm = k, confidence = of_nat n / of_nat (length rhythms)\<rparr>))"

subsection \<open>Detection (findPatternsOfLength)\<close>

text \<open>
  The inner while loop: counts the consecutive copies of the pattern from \<open>nextStart\<close>.
  Every call has \<open>patternLength \<ge> 2\<close>; with \<open>patternLength = 0\<close> the source would not
  leave the loop, and the model returns at once.
\<close>

function repetitionsFrom :: "string \<Rightarrow> string \<Rightarrow> nat \<Rightarrow> nat \<Rightarrow> nat \<Rightarrow> nat" where
  "repetitionsFrom sequence pat patternLength nextStart repetitions =
     (if 0 < patternLength \<and> nextStart + patternLength \<le> length sequence
         \<and> substring sequence nextStart (nextStart + patternLength) = pat
      then repetitionsFrom sequence pat patternLength (nextStart + patternLength) (repetitions + 1)
      else repetitions)"
  by pat_completeness auto
termination
  by (relation "measure (\<lambda>(sequence, pat, patternLength, nextStart, repetitions).
                   length sequence - nextStart)") auto

text \<open>
  \<^verbatim>\<open>this.detectedPatterns.get(patternKey) || { ... }\<close>: the entry of the registry, or a
  fresh object when the key is absent (only then is the clock read, for \<^verbatim>\<open>firstSeen\<close>).
\<close>

definition existingOrFresh ::
    "clock \<Rightarrow> (patternKey \<times> patternEntry) list \<Rightarrow> string \<Rightarrow> nat \<Rightarrow> jsnum
      \<Rightarrow> patternEntry \<times> clock" where
  "existingOrFresh clock registry pat patternLength quality =
     (case map_of registry (pat, patternLength) of
        Some p \<Rightarrow> (p, clock)
      | None \<Rightarrow>
          (case Date_now clock of
             (now, clock') \<Rightarrow>
               (\<lparr>pattern = pat, length_p = patternLength, frequency = 0, score = 0,
                 lastSeen = 0, rhythmInfo = None, qualityScore = quality,
                 firstSeen = now\<rparr>, clock')))"

text \<open>
  The three assignments \<^verbatim>\<open>frequency += repetitions\<close>, \<^verbatim>\<open>lastSeen = Date.now()\<close> and
  \<^verbatim>\<open>score = this.calculatePatternScore(existingPattern, repetitions)\<close>, in this order.
\<close>

definition refreshEntry :: "clock \<Rightarrow> patternEntry \<Rightarrow> nat \<Rightarrow> patternEntry \<times> clock" where
  "refreshEntry clock existingPattern repetitions =
     (case Date_now clock of
        (now, clock1) \<Rightarrow>
          (let p1 = existingPattern\<lparr>frequency := frequency existingPattern + repetitions,
                                    lastSeen := now\<rparr>
           in case calculatePatternScore clock1 p1 repetitions of
                (s, clock2) \<Rightarrow> (p1\<lparr>score := s\<rparr>, clock2)))"

text \<open>
  The body of \<^verbatim>\<open>if (repetitions >= 2)\<close> once the quality passed. When the key is in
  the registry, \<^verbatim>\<open>existingPattern\<close> is the registry's own object, so each assignment to
  one of its fields is a write to the registry (\<open>inPlace\<close>); otherwise it is a fresh
  object, which reaches the registry only through \<^verbatim>\<open>set\<close>.
\<close>

definition updateCandidate ::
    "clock \<Rightarrow> engine \<Rightarrow> keystroke list \<Rightarrow> string \<Rightarrow> nat \<Rightarrow> nat \<Rightarrow> jsnum \<Rightarrow> engine \<times> clock" where
  "updateCandidate clock e keystrokeData pat patternLength repetitions quality =
     (let patternKey = (pat, patternLength);
          registry = detectedPatterns e
      in case existingOrFresh clock registry pat patternLength quality of
           (p0, clock1) \<Rightarrow>
      case refreshEntry clock1 p0 repetitions of
           (p1, clock2) \<Rightarrow>
      let p2 = p1\<lparr>rhythmInfo :=
                 analyzePatternRhythm (averageTempo (userStyle e)) pat keystrokeData\<rparr>
      in case calculateFreshnessPenalty clock2 p2 of
           (freshnessPenalty, clock3) \<Rightarrow>
      let existingPattern = p2\<lparr>score := score p2 * freshnessPenalty\<rparr>;
          inPlace = (if map_of registry patternKey = None then registry
                     else AList.update patternKey existingPattern registry)
      in (if score existingPattern > 1.0
          then e\<lparr>detectedPatterns := AList.update patternKey existingPattern inPlace\<rparr>
          else e\<lparr>detectedPatterns := inPlace\<rparr>, clock3))"

text \<open>One round of the sliding window, at offset \<open>i\<close>.\<close>

definition candidateAt ::
    "string \<Rightarrow> nat \<Rightarrow> keystroke list \<Rightarrow> nat \<Rightarrow> engine \<times> clock \<Rightarrow> engine \<times> clock" where
  "candidateAt sequence patternLength keystrokeData i state =
     (let e = fst state; clock = snd state;
          pat = substring sequence i (i + patternLength)
      in if isSpamPattern pat then (e, clock)
         else
           (let repetitions = repetitionsFrom sequence pat patternLength (i + patternLength) 1
            in if repetitions \<ge> 2
               then (let quality = calculatePatternQuality pat
                     in if js_lt quality (Fin 0.3) then (e, clock)
                        else updateCandidate clock e keystrokeData pat patternLength
                               repetitions quality)
               else (e, clock)))"

text \<open>
  The for loop over \<^verbatim>\<open>i = 0, 1, ...\<close> while \<^verbatim>\<open>i <= sequence.length - patternLength * 2\<close>.
  The map the method returns is read by no caller; the model keeps the effect.
\<close>

definition findPatternsOfLength ::
    "clock \<Rightarrow> engine \<Rightarrow> string \<Rightarrow> nat \<Rightarrow> keystroke list \<Rightarrow> engine \<times> clock" where
  "findPatternsOfLength clock e sequence patternLength keystrokeData =
     fold (candidateAt sequence patternLength keystrokeData)
       [0 ..< length sequence + 1 - patternLength * 2] (e, clock)"

subsection \<open>Clean-up, decay and learning (scoreAndRankPatterns)\<close>

text \<open>The first loop: deletes every entry with \<^verbatim>\<open>lastSeen < cutoffTime && frequency < 3\<close>.\<close>

definition evictOld ::
    "int \<Rightarrow> (patternKey \<times> patternEntry) list \<Rightarrow> (patternKey \<times> patternEntry) list" where
  "evictOld cutoffTime registry =
     filter (\<lambda>(key, p). \<not> (lastSeen p < cutoffTime \<and> frequency p < 3)) registry"

definition decayEntry :: "int \<Rightarrow> patternEntry \<Rightarrow> patternEntry" where
  "decayEntry now p =
     (let timeSinceLastSeen = now - lastSeen p;
          decayFactor = max 0.1 (1 - of_int timeSinceLastSeen / 60000)
      in p\<lparr>score := score p * decayFactor\<rparr>)"

text \<open>The second loop; the clock is read once for each entry.\<close>

fun decayAll ::
    "clock \<Rightarrow> (patternKey \<times> patternEntry) list \<Rightarrow> (patternKey \<times> patternEntry) list \<times> clock" where
  "decayAll clock [] = ([], clock)"
| "decayAll clock ((key, p) # rest) =
     (case decayAll (snd (Date_now clock)) rest of
        (rest', clock') \<Rightarrow> ((key, decayEntry (fst (Date_now clock)) p) # rest', clock'))"

text \<open>
  \<^verbatim>\<open>values.filter(p => p.score > threshold).sort((a, b) => b.score - a.score).slice(0, 10)\<close>;
  the sort is stable.
\<close>

definition topPatterns :: "(patternKey \<times> patternEntry) list \<Rightarrow> patternEntry list" where
  "topPatterns registry =
     take 10 (sort_key (\<lambda>p. - score p)
                (filter (\<lambda>p. score p > patternScoreThreshold) (map snd registry)))"

definition categorizePattern :: "patternEntry \<Rightarrow> category" where
  "categorizePattern p =
     (if length_p p \<le> 3 then Simple
      else if length_p p \<ge> 8 then Complex
      else if length (pattern p) > 2
              \<and> pattern p = repeat (substring (pattern p) 0 (length (pattern p) div 2)) 2
           then Repetitive
      else if length (pattern p) > 2
              \<and> list_all (\<lambda>i. i < 2 \<or> pattern p ! i = pattern p ! (i mod 2))
                    [0 ..< length (pattern p)]
           then Alternating
      else Varied)"

text \<open>The body of \<^verbatim>\<open>topPatterns.forEach\<close>.\<close>

definition learnPattern ::
    "patternEntry \<Rightarrow> learnedPattern list \<times> clock \<Rightarrow> learnedPattern list \<times> clock" where
  "learnPattern p state =
     (let learned = fst state; clock = snd state;
          isLearned = list_ex (\<lambda>l. learned_pattern l = pattern p) learned
      in if \<not> isLearned \<and> score p > patternScoreThreshold * 2
         then (let pushed = learned @ [\<lparr>learned_pattern = pattern p,
                                         learnedAt = fst (Date_now clock),
                                         strength = score p,
                                         category = categorizePattern p\<rparr>];
                   sorted = sort_key (\<lambda>l. - strength l) pushed
               in (if length sorted > 50 then take 50 sorted else sorted,
                   snd (Date_now clock)))
         else (learned, clock))"

definition scoreAndRankPatterns :: "clock \<Rightarrow> engine \<Rightarrow> engine \<times> clock" where
  "scoreAndRankPatterns clock e =
     (let cutoffTime = fst (Date_now clock) - 30000;
          kept = evictOld cutoffTime (detectedPatterns e)
      in case decayAll (snd (Date_now clock)) kept of
           (decayed, clock1) \<Rightarrow>
      case fold learnPattern (topPatterns decayed) (learnedPatterns e, clock1) of
           (learned, clock2) \<Rightarrow>
             (e\<lparr>detectedPatterns := decayed, learnedPatterns := learned\<rparr>, clock2))"

subsection \<open>One analysis pass over the patterns (analyzePatterns)\<close>

text \<open>\<^verbatim>\<open>xs.slice(-n)\<close>: the last \<open>n\<close> elements, or all of them.\<close>

definition lastN :: "nat \<Rightarrow> 'a list \<Rightarrow> 'a list" where
  "lastN n xs = drop (length xs - n) xs"

text \<open>
  The loop of analyzePatterns: \<open>patternLength\<close> runs from \<^verbatim>\<open>minPatternLength\<close> while
  \<^verbatim>\<open>patternLength <= Math.min(maxPatternLength, recentKeystrokes.length / 2)\<close>.
\<close>

definition detectAll :: "clock \<Rightarrow> engine \<Rightarrow> keystroke list \<Rightarrow> engine \<times> clock" where
  "detectAll clock e recentKeystrokes =
     fold (\<lambda>patternLength state.
             findPatternsOfLength (snd state) (fst state) (map char recentKeystrokes)
               patternLength recentKeystrokes)
       [minPatternLength ..< min maxPatternLength (length recentKeystrokes div 2) + 1]
       (e, clock)"

text \<open>
  The method: the guard, the detection loop over the last 32 keystrokes, then
  scoreAndRankPatterns. \<^verbatim>\<open>findNestedPatterns\<close>, called between the two, writes
  \<^verbatim>\<open>hierarchicalPatterns\<close> only and is left out.
\<close>

definition analyzePatterns :: "clock \<Rightarrow> engine \<Rightarrow> engine \<times> clock" where
  "analyzePatterns clock e =
     (if length (keystrokeHistory e) < minPatternLength then (e, clock)
      else case detectAll clock e (lastN 32 (keystrokeHistory e)) of
             (e1, clock1) \<Rightarrow> scoreAndRankPatterns clock1 e1)"

subsection \<open>The rhythm tracker (analyzeRhythm)\<close>

definition mean :: "int list \<Rightarrow> rat" where
  "mean xs = of_int (sum_list xs) / of_nat (length xs)"

definition isRhythmSpam :: "keystroke list \<Rightarrow> bool" where
  "isRhythmSpam keystrokes =
     (if length keystrokes < 4 then False
      else if setSize (map char keystrokes) = 1 \<and> length keystrokes > 3
              \<and> mean (intervalsOf keystrokes) < 50 then True
      else if (of_nat (length (filter (\<lambda>interval. interval < 80) (intervalsOf keystrokes))) :: rat)
                / of_nat (length keystrokes - 1) > 0.7 then True
      else False)"

text \<open>\<^verbatim>\<open>xs.reduce((a, b) => a + b, 0)\<close> over numbers that may be infinite.\<close>

definition js_sum :: "jsnum list \<Rightarrow> jsnum" where
  "js_sum xs = fold (\<lambda>b a. js_add a b) xs (Fin 0)"

definition updateTempoEstimation :: "engine \<Rightarrow> int list \<Rightarrow> engine" where
  "updateTempoEstimation e intervals =
     (let avgInterval = mean intervals;
          estimatedTempo = js_div (Fin 60000) (js_mul (Fin avgInterval) (Fin 4));
          pushed = tempoHistory e @ [estimatedTempo];
          history = (if length pushed > 20 then tl pushed else pushed)
      in e\<lparr>tempoHistory := history,
            userStyle := (userStyle e)\<lparr>averageTempo :=
              js_div (js_sum history) (Fin (of_nat (length history)))\<rparr>\<rparr>)"

definition analyzeRhythm :: "clock \<Rightarrow> engine \<Rightarrow> engine \<times> clock" where
  "analyzeRhythm clock e =
     (if length (keystrokeHistory e) < 4 then (e, clock)
      else
        (let recentStrokes = lastN 16 (keystrokeHistory e)
         in if isRhythmSpam recentStrokes then (e, clock)
            else
              (let intervals = intervalsOf recentStrokes;
                   rhythmPattern = map (classifyInterval (averageTempo (userStyle e))) intervals;
                   rhythmKey = rhythmPattern;
                   existingRhythm =
                     (case map_of (rhythmPatterns e) rhythmKey of
                        Some r \<Rightarrow> r
                      | None \<Rightarrow> \<lparr>rhythm_pattern = rhythmPattern, rhythm_frequency = 0,
                                  averageInterval = 0, rhythm_lastSeen = 0\<rparr>);
                   existingRhythm = existingRhythm
                     \<lparr>rhythm_frequency := rhythm_frequency existingRhythm + 1,
                      averageInterval := mean intervals,
                      rhythm_lastSeen := fst (Date_now clock)\<rparr>;
                   e1 = e\<lparr>rhythmPatterns := AList.update rhythmKey existingRhythm (rhythmPatterns e)\<rparr>
               in (updateTempoEstimation e1 intervals, snd (Date_now clock)))))"

subsection \<open>The style model (updateUserStyle)\<close>

text \<open>
  \<^verbatim>\<open>avgPatternLength\<close> is \<^verbatim>\<open>0 / 0\<close>, that is \<^verbatim>\<open>NaN\<close>, when no pattern is above the
  threshold; both comparisons are then false and the complexity is medium.
\<close>

definition updateUserStyle :: "engine \<Rightarrow> engine" where
  "updateUserStyle e =
     (let tops = topPatterns (detectedPatterns e);
          avgPatternLength = js_div (Fin (of_nat (sum_list (map length_p tops))))
                                    (Fin (of_nat (length tops)));
          complexity = (if js_lt avgPatternLength (Fin 3) then SimpleC
                        else if js_gt avgPatternLength (Fin 6) then ComplexC
                        else MediumC);
          rhythmCounts = fold countRhythm (concat (map (\<lambda>r. rhythm_pattern (snd r))
                                                     (rhythmPatterns e))) [];
          style = (userStyle e)\<lparr>preferredPatterns := tops, patternComplexity := complexity\<rparr>
      in e\<lparr>userStyle :=
            (case mostCommon rhythmCounts of
               None \<Rightarrow> style
             | Some (n, _) \<Rightarrow> style\<lparr>rhythmPreference := n\<rparr>)\<rparr>)"

subsection \<open>Recording a keystroke (recordKeystroke)\<close>

text \<open>
  The method returns the suggestions of \<^verbatim>\<open>getPatternSuggestions\<close>, which reads the
  state and changes nothing; the model returns the state. No statement of the three
  analysis methods throws, so the \<^verbatim>\<open>catch\<close> is never entered.
\<close>

definition recordKeystroke :: "clock \<Rightarrow> engine \<Rightarrow> char \<Rightarrow> int \<Rightarrow> engine \<times> clock" where
  "recordKeystroke clock e c ts =
     (let keystroke = \<lparr>char = toLowerChar c, timestamp = ts,
                       timeSinceLastKey = (if length (keystrokeHistory e) > 0
                                           then ts - timestamp (last (keystrokeHistory e))
                                           else 0)\<rparr>;
          pushed = keystrokeHistory e @ [keystroke];
          history = (if length pushed > 1000 then tl pushed else pushed);
          e1 = e\<lparr>keystrokeHistory := history\<rparr>
      in if length history \<ge> minPatternLength
         then (case analyzePatterns clock e1 of
                 (e2, clock2) \<Rightarrow>
               case analyzeRhythm clock2 e2 of
                 (e3, clock3) \<Rightarrow> (updateUserStyle e3, clock3))
         else (e1, clock))"

text \<open>The engine after a list of keystrokes, each a character and its timestamp.\<close>

definition recordAll :: "clock \<Rightarrow> engine \<Rightarrow> (char \<times> int) list \<Rightarrow> engine \<times> clock" where
  "recordAll clock e inputs =
     fold (\<lambda>input state. recordKeystroke (snd state) (fst state) (fst input) (snd input))
       inputs (e, clock)"

subsection \<open>Persistence (saveUserPatterns, loadUserPatterns)\<close>

text \<open>
  What \<^verbatim>\<open>JSON.parse(JSON.stringify(x))\<close> makes of a number: a finite number is
  written and read back as it is; \<^verbatim>\<open>NaN\<close> and the infinities are written as
  \<^verbatim>\<open>null\<close>, which every later read of the field (an arithmetic operand each time)
  takes as 0.
\<close>

fun jsonNumber :: "jsnum \<Rightarrow> jsnum" where
  "jsonNumber (Fin a) = Fin a"
| "jsonNumber _ = Fin 0"

definition jsonEntry :: "patternEntry \<Rightarrow> patternEntry" where
  "jsonEntry p = p\<lparr>qualityScore := jsonNumber (qualityScore p)\<rparr>"

text \<open>
  The object \<^verbatim>\<open>userData\<close> as the stored text holds it (without
  \<^verbatim>\<open>hierarchicalPatterns\<close>, which the model leaves out).
\<close>

record userData =
  saved_detectedPatterns :: "(patternKey \<times> patternEntry) list"
  saved_rhythmPatterns :: "(noteValue list \<times> rhythmEntry) list"
  saved_userStyle :: userStyle
  lastSaved :: int

definition saveUserPatterns :: "clock \<Rightarrow> engine \<Rightarrow> userData \<times> clock" where
  "saveUserPatterns clock e =
     (\<lparr>saved_detectedPatterns = map (\<lambda>(key, p). (key, jsonEntry p)) (detectedPatterns e),
       saved_rhythmPatterns = rhythmPatterns e,
       saved_userStyle = (userStyle e)
         \<lparr>preferredPatterns := map jsonEntry (preferredPatterns (userStyle e)),
          averageTempo := jsonNumber (averageTempo (userStyle e))\<rparr>,
       lastSaved = fst (Date_now clock)\<rparr>, snd (Date_now clock))"

text \<open>
  \<open>None\<close> is a missing item of the storage, after which the method returns at once;
  \<open>Some\<close> holds what saveUserPatterns stored.
\<close>

definition loadUserPatterns :: "userData option \<Rightarrow> engine \<Rightarrow> engine" where
  "loadUserPatterns savedData e =
     (case savedData of
        None \<Rightarrow> e
      | Some userData \<Rightarrow>
          e\<lparr>detectedPatterns := saved_detectedPatterns userData,
            rhythmPatterns := saved_rhythmPatterns userData,
            userStyle := saved_userStyle userData\<rparr>)"

subsection \<open>Predicates of the statements\<close>




text \<open>A number that is neither \<^verbatim>\<open>NaN\<close> nor infinite.\<close>

fun isFin :: "jsnum \<Rightarrow> bool" where
  "isFin (Fin _) = True"
| "isFin _ = False"

text \<open>A number within a closed range: \<^verbatim>\<open>lo <= x && x <= hi\<close>.\<close>

definition withinRange :: "rat \<Rightarrow> rat \<Rightarrow> jsnum \<Rightarrow> bool" where
  "withinRange lo hi x = (js_le (Fin lo) x \<and> js_le x (Fin hi))"

subsection \<open>Concrete inputs\<close>

text \<open>
  The keys \<^verbatim>\<open>a\<close>, \<^verbatim>\<open>b\<close>, \<^verbatim>\<open>a\<close>, \<^verbatim>\<open>b\<close>, 100 ms apart, and the engine that
  recorded them while the clock read 500: its registry holds \<^verbatim>\<open>ab\<close> with frequency
  2, first and last seen at 500.
\<close>

definition typedAbab :: "(char \<times> int) list" where
  "typedAbab = [(CHR ''a'', 0), (CHR ''b'', 100), (CHR ''a'', 200), (CHR ''b'', 300)]"

definition ababEngine :: engine where
  "ababEngine = fst (recordAll (\<lambda>_. 500) constructor typedAbab)"

text \<open>The keystroke \<^verbatim>\<open>c\<close> that follows them, at 400.\<close>

definition keystrokeC :: keystroke where
  "keystrokeC = \<lparr>char = CHR ''c'', timestamp = 400, timeSinceLastKey = 100\<rparr>"

text \<open>A clock that reads 600 once and 1100 from then on.\<close>

definition jumpingClock :: clock where
  "jumpingClock = case_nat 600 (\<lambda>_. 1100)"

text \<open>
  An entry for \<^verbatim>\<open>ab\<close> that was last seen at time 0 with frequency 2, and an engine
  with the two keystrokes \<^verbatim>\<open>x\<close>, \<^verbatim>\<open>y\<close> in its history and this entry in its
  registry.
\<close>

definition staleEntry :: patternEntry where
  "staleEntry = \<lparr>pattern = ''ab'', length_p = 2, frequency = 2, score = 2,
                  lastSeen = 0, rhythmInfo = None, qualityScore = Fin 1.95, firstSeen = 1\<rparr>"

definition agedEngine :: engine where
  "agedEngine = constructor
     \<lparr>keystrokeHistory := [\<lparr>char = CHR ''x'', timestamp = 0, timeSinceLastKey = 0\<rparr>,
                           \<lparr>char = CHR ''y'', timestamp = 400, timeSinceLastKey = 400\<rparr>],
      detectedPatterns := [((''ab'', 2), staleEntry)]\<rparr>"

text \<open>Twenty keystrokes, 500 ms apart, and the history that holds them.\<close>

definition typed20 :: "(char \<times> int) list" where
  "typed20 = map (\<lambda>(c, i). (c, 500 * int i)) (zip ''abcdefghijklmnopqrst'' [0 ..< 20])"

definition history20 :: "keystroke list" where
  "history20 = map (\<lambda>(c, ts). \<lparr>char = c, timestamp = ts,
                                 timeSinceLastKey = (if ts = 0 then 0 else 500)\<rparr>) typed20"

text \<open>The keys \<^verbatim>\<open>N\<close>, \<^verbatim>\<open>a\<close>, \<^verbatim>\<open>N\<close>, \<^verbatim>\<open>A\<close>, 300 ms apart.\<close>

definition typedNana :: "(char \<times> int) list" where
  "typedNana = [(CHR ''N'', 0), (CHR ''a'', 300), (CHR ''N'', 600), (CHR ''A'', 900)]"

section \<open>Properties\<close>

lemma setSize_card: "setSize xs = card (set xs)"
  by (simp add: setSize_def length_remdups_card_conv)

subsection \<open>The quality score\<close>

lemma isFin_mul: "isFin a \<Longrightarrow> isFin (js_mul a (Fin b))"
  by (cases a) simp_all

lemma isFin_qualityBeforeRepetition:
  "pat \<noteq> [] \<Longrightarrow> isFin (qualityBeforeRepetition pat)"
  by (simp add: qualityBeforeRepetition_def Let_def)

lemma isFin_qualityUnclamped: "pat \<noteq> [] \<Longrightarrow> isFin (qualityUnclamped pat)"
  by (simp add: qualityUnclamped_def Let_def isFin_mul isFin_qualityBeforeRepetition)

lemma clamp_Fin: "js_max (Fin lo) (js_min (Fin hi) (Fin q)) = Fin (max lo (min hi q))"
  by (simp add: max_def min_def)

text \<open>
  Claim C6, as amended. For every non-empty sequence the quality score is a number
  within [0.1, 2.0]. (No caller passes the empty sequence: a pattern has at least
  \<^verbatim>\<open>minPatternLength\<close> characters.)
\<close>

theorem quality_within_range:
  "pat \<noteq> [] \<Longrightarrow> withinRange 0.1 2.0 (calculatePatternQuality pat)"
proof -
  assume "pat \<noteq> []"
  then have "isFin (qualityUnclamped pat)"
    by (rule isFin_qualityUnclamped)
  then obtain q where q: "qualityUnclamped pat = Fin q"
    by (cases "qualityUnclamped pat") simp_all
  have "calculatePatternQuality pat = Fin (max 0.1 (min 2.0 q))"
    unfolding calculatePatternQuality_def q by (rule clamp_Fin)
  moreover have "(0.1::rat) \<le> max 0.1 (min 2.0 q)"
    by simp
  moreover have "max 0.1 (min 2.0 q) \<le> (2.0::rat)"
    by simp
  ultimately show ?thesis
    by (simp add: withinRange_def)
qed

text \<open>The theorem at the pattern \<^verbatim>\<open>ab\<close>, whose quality is 1.95.\<close>

theorem quality_within_range_witness:
  "''ab'' \<noteq> [] \<and> withinRange 0.1 2.0 (calculatePatternQuality ''ab'')
   \<and> calculatePatternQuality ''ab'' = Fin 1.95"
proof -
  have ne: "''ab'' \<noteq> []"
    by simp
  have val: "calculatePatternQuality ''ab'' = Fin 1.95"
    by code_simp
  from ne quality_within_range [OF ne] val show ?thesis
    by blast
qed

text \<open>
  Claim C6 as stated fails at the empty sequence: the diversity ratio is \<^verbatim>\<open>0 / 0\<close>,
  the quality is \<^verbatim>\<open>NaN\<close> from there on, and \<^verbatim>\<open>Math.min\<close> and \<^verbatim>\<open>Math.max\<close> return
  \<^verbatim>\<open>NaN\<close>.
\<close>

theorem quality_of_empty_is_NaN:
  "calculatePatternQuality [] = NaN \<and> \<not> withinRange 0.1 2.0 (calculatePatternQuality [])"
proof -
  have "calculatePatternQuality [] = NaN"
    by code_simp
  then show ?thesis
    by (simp add: withinRange_def)
qed

lemma hasExcessiveInternalRepetition_iff:
  "hasExcessiveInternalRepetition pat \<longleftrightarrow>
     4 < length pat
     \<and> (\<exists>subLen. 2 \<le> subLen \<and> subLen \<le> length pat div 2 \<and> repeatsUnit pat subLen)"
  by (auto simp: hasExcessiveInternalRepetition_def list_ex_iff)

text \<open>
  Claim C7, as amended. For every sequence of more than four characters that, for some
  sub-length from 2 up to half its length, equals its leading unit of that length
  repeated to fill, with remainder, the quality computation multiplies the running score
  by 0.6 before it clamps.
\<close>

theorem internal_repetition_penalty:
  assumes "4 < length pat" and "2 \<le> subLen" and "subLen \<le> length pat div 2"
    and "repeatsUnit pat subLen"
  shows "qualityUnclamped pat = js_mul (qualityBeforeRepetition pat) (Fin 0.6)
         \<and> calculatePatternQuality pat =
             js_max (Fin 0.1) (js_min (Fin 2.0) (js_mul (qualityBeforeRepetition pat) (Fin 0.6)))"
proof -
  from assms have "hasExcessiveInternalRepetition pat"
    unfolding hasExcessiveInternalRepetition_iff by blast
  then show ?thesis
    by (simp add: qualityUnclamped_def calculatePatternQuality_def)
qed

text \<open>The theorem at \<^verbatim>\<open>ababa\<close>: the unit \<^verbatim>\<open>ab\<close> twice and the remainder \<^verbatim>\<open>a\<close>.\<close>

theorem internal_repetition_penalty_witness:
  "4 < length ''ababa'' \<and> (2::nat) \<le> 2 \<and> 2 \<le> length ''ababa'' div 2
   \<and> repeatsUnit ''ababa'' 2
   \<and> qualityUnclamped ''ababa'' = js_mul (qualityBeforeRepetition ''ababa'') (Fin 0.6)
   \<and> qualityBeforeRepetition ''ababa'' = Fin 1.404
   \<and> calculatePatternQuality ''ababa'' = Fin 0.8424"
proof -
  have h1: "4 < length ''ababa''"
    by simp
  have h2: "(2::nat) \<le> 2"
    by simp
  have h3: "2 \<le> length ''ababa'' div 2"
    by simp
  have h4: "repeatsUnit ''ababa'' 2"
    by code_simp
  have v1: "qualityBeforeRepetition ''ababa'' = Fin 1.404"
    by code_simp
  have v2: "calculatePatternQuality ''ababa'' = Fin 0.8424"
    by code_simp
  from internal_repetition_penalty [OF h1 h2 h3 h4] h1 h2 h3 h4 v1 v2 show ?thesis
    by blast
qed

text \<open>
  Claim C7 as stated fails at \<^verbatim>\<open>abab\<close>, the unit \<^verbatim>\<open>ab\<close> repeated twice: the method
  returns false for every sequence of at most four characters, and the quality 1.56
  carries no penalty (with it, it would be 0.936).
\<close>

theorem no_penalty_for_length_four:
  "length ''abab'' = 4 \<and> 2 \<le> length ''abab'' div 2 \<and> repeatsUnit ''abab'' 2
   \<and> \<not> hasExcessiveInternalRepetition ''abab''
   \<and> qualityUnclamped ''abab'' = qualityBeforeRepetition ''abab''
   \<and> calculatePatternQuality ''abab'' = Fin 1.56
   \<and> js_mul (qualityBeforeRepetition ''abab'') (Fin 0.6) = Fin 0.936"
  by code_simp

subsection \<open>The interval classifier\<close>



subsection \<open>The score of an update\<close>

text \<open>
  What the update assigns to the score before the freshness penalty. The recency term
  is taken between two readings of the clock within the update: \<^verbatim>\<open>lastSeen\<close> has
  just been overwritten when calculatePatternScore reads it.
\<close>

lemma refreshEntry_score:
  "score (fst (refreshEntry clock p repetitions)) =
     of_nat (repetitions * length_p p) + min (of_nat (length_p p) / 4) 5
     + of_nat (setSize (pattern p)) * 0.5 + max 0 (5 - of_int (clock 1 - clock 0) / 1000)"
  by (simp add: refreshEntry_def calculatePatternScore_def Date_now_def Let_def)

text \<open>
  Claim C1 says that the recency term of the score is measured against the last-seen
  time as it stood before the update, so that a pattern last seen more than 5 seconds
  ago receives no recency bonus. The code does otherwise. The engine has seen \<^verbatim>\<open>ab\<close>
  last at 500; the key \<^verbatim>\<open>c\<close> arrives when the clock reads 100500, 100 seconds later,
  and the pass detects \<^verbatim>\<open>ab\<close> with 2 repetitions. The score it stores is 10.5, which
  holds the full bonus of 5; by the formula of the claim the score is 5.5.
\<close>

theorem recency_bonus_ignores_previous_lastSeen:
  "map (\<lambda>(key, p). (key, frequency p, score p, lastSeen p)) (detectedPatterns ababEngine)
     = [((''ab'', 2), 2, 3.15, 500)]
   \<and> map (\<lambda>(key, p). (key, frequency p, score p, lastSeen p))
        (detectedPatterns (fst (recordKeystroke (\<lambda>_. 100500) ababEngine (CHR ''c'') 100400)))
     = [((''ab'', 2), 4, 10.5, 100500)]
   \<and> (2 * 2 + min (2 / 4) 5 + 0.5 * 2 + max 0 (5 - (100500 - 500) / 1000) :: rat) = 5.5"
  by code_simp

subsection \<open>The registry under an update\<close>

lemma update_absent: "map_of al k = None \<Longrightarrow> AList.update k v al = al @ [(k, v)]"
  by (induction al) (auto split: if_splits)

text \<open>
  When the clock does not advance between the two readings of an update, a pattern of
  at least two characters, two of them distinct, seen at least twice, has a score of at
  least 10.5 before the penalty; the penalty is at least 0.1, so the score stays above
  1.0. A score of at most 1.0 after the penalty needs a clock that advances by half a
  second or more between the two readings.
\<close>

lemma refreshEntry_score_steady:
  assumes "clock 1 = clock 0" and "2 \<le> repetitions" and "2 \<le> length_p p"
    and "2 \<le> setSize (pattern p)"
  shows "10.5 \<le> score (fst (refreshEntry clock p repetitions))"
proof -
  from assms(2,3) have "2 * 2 \<le> repetitions * length_p p"
    by (rule mult_le_mono)
  then have "(of_nat (2 * 2) :: rat) \<le> of_nat (repetitions * length_p p)"
    by (simp only: of_nat_le_iff)
  then have base: "(4::rat) \<le> of_nat (repetitions * length_p p)"
    by simp
  from assms(3) have "(of_nat 2 :: rat) \<le> of_nat (length_p p)"
    by (simp only: of_nat_le_iff)
  then have complexity: "(0.5::rat) \<le> min (of_nat (length_p p) / 4) 5"
    by simp
  from assms(4) have "(of_nat 2 :: rat) \<le> of_nat (setSize (pattern p))"
    by (simp only: of_nat_le_iff)
  then have unique: "(1::rat) \<le> of_nat (setSize (pattern p)) * 0.5"
    by simp
  have recency: "max 0 (5 - of_int (clock 1 - clock 0) / 1000) = (5::rat)"
    using assms(1) by simp
  have "(10.5::rat) = 4 + 0.5 + 1 + 5"
    by simp
  also have "\<dots> \<le> of_nat (repetitions * length_p p) + min (of_nat (length_p p) / 4) 5
                + of_nat (setSize (pattern p)) * 0.5 + 5"
    using base complexity unique by (intro add_mono) simp_all
  finally show ?thesis
    unfolding refreshEntry_score recency .
qed

lemma calculateFreshnessPenalty_ge: "0.1 \<le> fst (calculateFreshnessPenalty clock p)"
  by (simp add: calculateFreshnessPenalty_def Let_def)

text \<open>A key that is not in the registry gets an entry only with a score above 1.0.\<close>

lemma updateCandidate_absent:
  assumes "map_of (detectedPatterns e) (pat, patternLength) = None"
  shows "detectedPatterns (fst (updateCandidate clock e keystrokeData pat patternLength repetitions quality))
           = detectedPatterns e
         \<or> (\<exists>p. 1 < score p \<and>
               detectedPatterns (fst (updateCandidate clock e keystrokeData pat patternLength repetitions quality))
                 = detectedPatterns e @ [((pat, patternLength), p)])"
  using assms by (simp add: updateCandidate_def Let_def case_prod_unfold update_absent)

text \<open>An entry that is in the registry is written whatever its new score.\<close>

lemma updateCandidate_existing:
  assumes "map_of (detectedPatterns e) (pat, patternLength) = Some p"
  shows "\<exists>p'. map_of (detectedPatterns
                  (fst (updateCandidate clock e keystrokeData pat patternLength repetitions quality)))
                (pat, patternLength) = Some p'
              \<and> frequency p' = frequency p + repetitions \<and> lastSeen p' = clock 0"
  using assms
  by (simp add: updateCandidate_def Let_def case_prod_unfold existingOrFresh_def refreshEntry_def
        Date_now_def AList.update_conv')

text \<open>
  Claim C2 says that a candidate whose score after the penalty is at most 1.0 leaves
  the registry unchanged. The code does otherwise for a key that is in the registry.
  The engine holds \<^verbatim>\<open>ab\<close> with frequency 2, score 3.15, last seen at 500. The key
  \<^verbatim>\<open>c\<close> arrives and the pass detects \<^verbatim>\<open>ab\<close> with 2 repetitions, while the clock
  reads 600 for \<^verbatim>\<open>lastSeen\<close> and 1100 from then on: the score is 10 before the
  penalty of 0.1 and 1.0 after it, which is not above 1.0, and yet the entry of the
  registry now holds the frequency 4, the score 1.0 and the last-seen time 600. (At the
  end of recordKeystroke the decay has taken the score to 119/120.)
\<close>

theorem existing_entry_overwritten_below_threshold:
  "map (\<lambda>(key, p). (key, frequency p, score p, lastSeen p)) (detectedPatterns ababEngine)
     = [((''ab'', 2), 2, 3.15, 500)]
   \<and> map (\<lambda>(key, p). (key, frequency p, score p, lastSeen p))
        (detectedPatterns (fst (findPatternsOfLength jumpingClock ababEngine ''ababc'' 2
                                  (keystrokeHistory ababEngine @ [keystrokeC]))))
     = [((''ab'', 2), 4, 1, 600)]
   \<and> map (\<lambda>(key, p). (key, frequency p, score p, lastSeen p))
        (detectedPatterns (fst (recordKeystroke jumpingClock ababEngine (CHR ''c'') 400)))
     = [((''ab'', 2), 4, 119 / 120, 600)]"
  by code_simp

subsection \<open>The clean-up of an analysis pass\<close>

lemma map_fst_decayAll: "map fst (fst (decayAll clock registry)) = map fst registry"
  by (induction clock registry rule: decayAll.induct) (simp_all add: case_prod_unfold)

lemma map_of_evictOld:
  "distinct (map fst registry) \<Longrightarrow>
   map_of (evictOld cutoffTime registry) key =
     (case map_of registry key of
        None \<Rightarrow> None
      | Some p \<Rightarrow> if lastSeen p < cutoffTime \<and> frequency p < 3 then None else Some p)"
proof (induction registry)
  case Nil
  then show ?case
    by (simp add: evictOld_def)
next
  case (Cons a registry)
  obtain k p where a: "a = (k, p)"
    by (cases a)
  from Cons.prems have d: "distinct (map fst registry)" and k: "k \<notin> fst ` set registry"
    by (simp_all add: a)
  from k have none: "map_of registry k = None"
    by (simp add: map_of_eq_None_iff)
  have IH: "map_of (evictOld cutoffTime registry) key =
     (case map_of registry key of
        None \<Rightarrow> None
      | Some p \<Rightarrow> if lastSeen p < cutoffTime \<and> frequency p < 3 then None else Some p)"
    using Cons.IH d by simp
  show ?case
  proof (cases "key = k")
    case True
    with IH none show ?thesis
      by (simp add: a evictOld_def)
  next
    case False
    with IH show ?thesis
      by (simp add: a evictOld_def)
  qed
qed

text \<open>Over the rationals the decay keeps a positive score positive.\<close>

lemma decayEntry_positive: "0 < score p \<Longrightarrow> 0 < score (decayEntry now p)"
  by (simp add: decayEntry_def Let_def max_def zero_less_mult_iff)

lemma keys_scoreAndRankPatterns:
  "map fst (detectedPatterns (fst (scoreAndRankPatterns clock e))) =
   map fst (evictOld (clock 0 - 30000) (detectedPatterns e))"
  by (simp add: scoreAndRankPatterns_def Let_def Date_now_def case_prod_unfold map_fst_decayAll)

lemma scoreAndRankPatterns_removed:
  assumes "distinct (map fst (detectedPatterns e))"
  shows "(map_of (detectedPatterns (fst (scoreAndRankPatterns clock e))) key = None) =
         (case map_of (detectedPatterns e) key of
            None \<Rightarrow> True
          | Some p \<Rightarrow> 30000 < clock 0 - lastSeen p \<and> frequency p < 3)"
proof -
  have "(map_of (detectedPatterns (fst (scoreAndRankPatterns clock e))) key = None) =
        (map_of (evictOld (clock 0 - 30000) (detectedPatterns e)) key = None)"
    using keys_scoreAndRankPatterns [of clock e]
    by (metis map_of_eq_None_iff set_map)
  also have "\<dots> = (case map_of (detectedPatterns e) key of
            None \<Rightarrow> True
          | Some p \<Rightarrow> 30000 < clock 0 - lastSeen p \<and> frequency p < 3)"
    using map_of_evictOld [OF assms, of "clock 0 - 30000" key]
    by (auto split: option.splits)
  finally show ?thesis .
qed

text \<open>The keys of the registry stay distinct under detection, as those of a Map do.\<close>

lemma distinct_updateCandidate:
  "distinct (map fst (detectedPatterns e)) \<Longrightarrow>
   distinct (map fst (detectedPatterns
     (fst (updateCandidate clock e keystrokeData pat patternLength repetitions quality))))"
  by (simp add: updateCandidate_def Let_def case_prod_unfold AList.distinct_update)

lemma distinct_candidateAt:
  "distinct (map fst (detectedPatterns (fst state))) \<Longrightarrow>
   distinct (map fst (detectedPatterns
     (fst (candidateAt sequence patternLength keystrokeData i state))))"
  by (simp add: candidateAt_def Let_def distinct_updateCandidate)

lemma distinct_findPatternsOfLength:
  assumes "distinct (map fst (detectedPatterns e))"
  shows "distinct (map fst (detectedPatterns
           (fst (findPatternsOfLength clock e sequence patternLength keystrokeData))))"
proof -
  have "distinct (map fst (detectedPatterns (fst state))) \<Longrightarrow>
        distinct (map fst (detectedPatterns
          (fst (fold (candidateAt sequence patternLength keystrokeData) is state))))"
    for "is" state
    by (induction "is" arbitrary: state) (simp_all add: distinct_candidateAt)
  then show ?thesis
    using assms by (simp add: findPatternsOfLength_def)
qed

lemma distinct_detectAll:
  assumes "distinct (map fst (detectedPatterns e))"
  shows "distinct (map fst (detectedPatterns (fst (detectAll clock e recentKeystrokes))))"
proof -
  have "distinct (map fst (detectedPatterns (fst state))) \<Longrightarrow>
        distinct (map fst (detectedPatterns (fst (fold (\<lambda>patternLength state.
             findPatternsOfLength (snd state) (fst state) (map char recentKeystrokes)
               patternLength recentKeystrokes) ls state))))"
    for ls state
    by (induction ls arbitrary: state) (simp_all add: distinct_findPatternsOfLength)
  then show ?thesis
    using assms by (simp add: detectAll_def)
qed

text \<open>
  Claim C3, as amended. An analysis pass first detects, which leaves the engine \<open>e1\<close>
  and the clock \<open>clock1\<close>, then cleans up. A key is absent from the registry after the
  pass if and only if it is absent after the detection or its entry there was last seen
  more than 30000 ms before the reading of the clock that the clean-up takes and has a
  frequency below 3. An entry last seen exactly 30000 ms before is kept.
\<close>

theorem removed_iff_older_than_30_seconds:
  assumes "minPatternLength \<le> length (keystrokeHistory e)"
    and "distinct (map fst (detectedPatterns e))"
    and "detectAll clock e (lastN 32 (keystrokeHistory e)) = (e1, clock1)"
  shows "(map_of (detectedPatterns (fst (analyzePatterns clock e))) key = None) =
         (case map_of (detectedPatterns e1) key of
            None \<Rightarrow> True
          | Some p \<Rightarrow> 30000 < clock1 0 - lastSeen p \<and> frequency p < 3)"
proof -
  from assms(2) have "distinct (map fst (detectedPatterns
      (fst (detectAll clock e (lastN 32 (keystrokeHistory e))))))"
    by (rule distinct_detectAll)
  with assms(3) have d: "distinct (map fst (detectedPatterns e1))"
    by simp
  from assms(1,3) have "analyzePatterns clock e = scoreAndRankPatterns clock1 e1"
    by (simp add: analyzePatterns_def)
  with scoreAndRankPatterns_removed [OF d, of clock1 key] show ?thesis
    by simp
qed

text \<open>
  The theorem at an engine whose two keystrokes repeat nothing and whose entry for
  \<^verbatim>\<open>ab\<close> was last seen at time 0 with frequency 2, when the clock reads 30001: the
  entry is removed.
\<close>

theorem removed_iff_older_than_30_seconds_witness:
  "minPatternLength \<le> length (keystrokeHistory agedEngine)
   \<and> distinct (map fst (detectedPatterns agedEngine))
   \<and> detectAll (\<lambda>_. 30001) agedEngine (lastN 32 (keystrokeHistory agedEngine))
       = (agedEngine, \<lambda>_. 30001)
   \<and> map_of (detectedPatterns agedEngine) (''ab'', 2) = Some staleEntry
   \<and> map_of (detectedPatterns (fst (analyzePatterns (\<lambda>_. 30001) agedEngine))) (''ab'', 2) = None"
proof -
  have h1: "minPatternLength \<le> length (keystrokeHistory agedEngine)"
    by (simp add: minPatternLength_def agedEngine_def constructor_def)
  have h2: "distinct (map fst (detectedPatterns agedEngine))"
    by (simp add: agedEngine_def constructor_def)
  have h3: "detectAll (\<lambda>_. 30001) agedEngine (lastN 32 (keystrokeHistory agedEngine))
              = (agedEngine, \<lambda>_. 30001)"
    by (simp add: detectAll_def lastN_def agedEngine_def constructor_def
          minPatternLength_def maxPatternLength_def)
  have v: "map_of (detectedPatterns agedEngine) (''ab'', 2) = Some staleEntry"
    by (simp add: agedEngine_def constructor_def)
  have "map_of (detectedPatterns (fst (analyzePatterns (\<lambda>_. 30001) agedEngine))) (''ab'', 2) = None"
    using removed_iff_older_than_30_seconds [OF h1 h2 h3, of "(''ab'', 2)"]
    by (simp add: v staleEntry_def)
  with h1 h2 h3 v show ?thesis
    by blast
qed

text \<open>
  Claim C3 as stated fails at an age of exactly 30 seconds: the same entry, last seen at
  time 0 with frequency 2, is still in the registry after a pass whose clock reads
  30000, since the test is \<^verbatim>\<open>lastSeen < cutoffTime\<close>.
\<close>

theorem kept_at_exactly_30_seconds:
  "map (\<lambda>(key, p). (key, lastSeen p, frequency p)) (detectedPatterns agedEngine)
     = [((''ab'', 2), 0, 2)]
   \<and> map (\<lambda>(key, p). (key, lastSeen p, frequency p))
        (detectedPatterns (fst (analyzePatterns (\<lambda>_. 30000) agedEngine)))
     = [((''ab'', 2), 0, 2)]"
  by code_simp


subsection \<open>The rhythm signature of uniform typing\<close>

text \<open>
  Claim C4, as amended. Twenty keystrokes are in the history, 500 ms apart, and the
  tempo is the initial 120 BPM. Each of the 19 intervals classifies as a quarter note.
  One pass of the rhythm analysis reads the last 16 keystrokes, so the signature it
  records is a sequence of 15 quarter notes, with frequency 1.
\<close>

theorem uniform_typing_signature:
  "averageTempo (userStyle constructor) = Fin 120
   \<and> map (classifyInterval (Fin 120)) (intervalsOf history20) = replicate 19 Quarter
   \<and> rhythmPatterns (fst (analyzeRhythm clock (constructor\<lparr>keystrokeHistory := history20\<rparr>)))
       = [(replicate 15 Quarter,
           \<lparr>rhythm_pattern = replicate 15 Quarter, rhythm_frequency = 1,
            averageInterval = 500, rhythm_lastSeen = clock 0\<rparr>)]"
  by code_simp

text \<open>
  Claim C4 as stated fails: after the pass over the twenty keystrokes the registry of
  rhythms has no signature of 19 categories; its one signature has 15.
\<close>

theorem no_signature_of_19_categories:
  "length history20 = 20 \<and> intervalsOf history20 = replicate 19 500
   \<and> map_of (rhythmPatterns
        (fst (analyzeRhythm (\<lambda>_. 10000) (constructor\<lparr>keystrokeHistory := history20\<rparr>))))
        (replicate 19 Quarter) = None
   \<and> map (\<lambda>entry. length (fst entry))
        (rhythmPatterns
          (fst (analyzeRhythm (\<lambda>_. 10000) (constructor\<lparr>keystrokeHistory := history20\<rparr>))))
      = [15]"
  by code_simp

text \<open>
  When the keystrokes arrive through recordKeystroke, the pass after the fourth one sets
  the tempo to \<^verbatim>\<open>60000 / (500 * 4)\<close>, that is 30 BPM, at which an interval of 500 ms
  is a sixteenth note.
\<close>

lemma tempo_after_four_keystrokes:
  "keystrokeHistory (fst (recordAll (\<lambda>_. 10000) constructor (take 4 typed20))) = take 4 history20
   \<and> averageTempo (userStyle (fst (recordAll (\<lambda>_. 10000) constructor (take 4 typed20)))) = Fin 30
   \<and> classifyInterval (Fin 30) 500 = Sixteenth"
  by code_simp

subsection \<open>Saving and loading\<close>

text \<open>
  What loadUserPatterns restores of what saveUserPatterns stored: the registry of
  detected patterns, the registry of rhythms and the style model. The learned patterns
  of the engine that loads stay as they were.
\<close>

lemma load_save:
  "detectedPatterns (loadUserPatterns (Some (fst (saveUserPatterns clock e))) e')
     = map (\<lambda>(key, p). (key, jsonEntry p)) (detectedPatterns e)
   \<and> rhythmPatterns (loadUserPatterns (Some (fst (saveUserPatterns clock e))) e') = rhythmPatterns e
   \<and> userStyle (loadUserPatterns (Some (fst (saveUserPatterns clock e))) e')
     = (userStyle e)\<lparr>preferredPatterns := map jsonEntry (preferredPatterns (userStyle e)),
                      averageTempo := jsonNumber (averageTempo (userStyle e))\<rparr>
   \<and> learnedPatterns (loadUserPatterns (Some (fst (saveUserPatterns clock e))) e') = learnedPatterns e'"
  by (simp add: loadUserPatterns_def saveUserPatterns_def)

text \<open>
  Claim C5 says that the snapshot captures the learned patterns and that loading restores
  them. The code does otherwise: \<^verbatim>\<open>userData\<close> has no field for \<^verbatim>\<open>learnedPatterns\<close>.
  After the keys \<^verbatim>\<open>N\<close>, \<^verbatim>\<open>a\<close>, \<^verbatim>\<open>N\<close>, \<^verbatim>\<open>A\<close> the engine has learned the pattern
  \<^verbatim>\<open>na\<close>; a fresh engine that loads what this engine saved has learned nothing.
\<close>

theorem learned_patterns_not_restored:
  "learnedPatterns (fst (recordAll (\<lambda>_. 10000) constructor typedNana))
     = [\<lparr>learned_pattern = ''na'', learnedAt = 10000, strength = 3.15, category = Simple\<rparr>]
   \<and> learnedPatterns (loadUserPatterns
        (Some (fst (saveUserPatterns (\<lambda>_. 20000)
                 (fst (recordAll (\<lambda>_. 10000) constructor typedNana)))))
        constructor) = []"
  by code_simp

subsection \<open>Lower case\<close>




























end
